theory Spec2Isabelle
  imports Main "HOL-Library.AList" "HOL-Library.Sublist"
begin

section \<open>Python values\<close>

text \<open>
  The handlers of \<^verbatim>\<open>flaskr/__init__.py\<close> work on the values that
  \<^verbatim>\<open>request.get_json()\<close> produces and on the dictionaries they hand to
  \<^verbatim>\<open>jsonify\<close>. A dictionary is an association list in insertion order; its keys
  are strings (JSON objects, formatted questions) or integers (the categories
  dictionary). Fractional numbers are not represented.
\<close>

datatype key = KInt int | KStr string

datatype pyval =
    PNone
  | PBool bool
  | PInt int
  | PStr string
  | PList "pyval list"
  | PDict "(key \<times> pyval) list"

datatype py_error =
    IndexError
  | KeyError
  | TypeError
  | AttributeError
  | UnboundLocalError
  | MultipleResultsFound
  | DataError

text \<open>Truth value of a Python object, as tested by \<^verbatim>\<open>if search:\<close>.\<close>

fun truthy :: "pyval \<Rightarrow> bool" where
  "truthy PNone = False"
| "truthy (PBool b) = b"
| "truthy (PInt n) = (n \<noteq> 0)"
| "truthy (PStr s) = (s \<noteq> [])"
| "truthy (PList xs) = (xs \<noteq> [])"
| "truthy (PDict kvs) = (kvs \<noteq> [])"

text \<open>
  The slice \<^verbatim>\<open>xs[start:end]\<close> of a list: a negative bound counts from the end,
  both bounds are clamped to the list, and the slice is empty when the upper bound
  does not exceed the lower one. Slicing never raises.
\<close>

definition slice_index :: "int \<Rightarrow> int \<Rightarrow> int" where
  "slice_index n i = (if i < 0 then max 0 (n + i) else min n i)"

definition py_slice :: "'a list \<Rightarrow> int \<Rightarrow> int \<Rightarrow> 'a list" where
  "py_slice xs start end' =
     (let n = int (length xs);
          lo = slice_index n start;
          hi = slice_index n end'
      in take (nat (hi - lo)) (drop (nat lo) xs))"

section \<open>Data model\<close>

record question =
  qid :: int
  qtext :: string
  answer :: string
  category :: int
  difficulty :: int

record category_row =
  cid :: int
  ctype :: string

record store =
  questions :: "question list"
  categories :: "category_row list"

record request =
  page_arg :: "int option"
  json_body :: pyval

text \<open>
  Modelled from the spec: \<^verbatim>\<open>Question.format()\<close> is defined in \<^verbatim>\<open>models.py\<close>,
  which is not among the sources. The formatted question is the dictionary of the five
  fields of a Question (section 3 of the spec).
\<close>

definition format :: "question \<Rightarrow> pyval" where
  "format q = PDict
     [(KStr ''id'', PInt (qid q)),
      (KStr ''question'', PStr (qtext q)),
      (KStr ''answer'', PStr (answer q)),
      (KStr ''category'', PInt (category q)),
      (KStr ''difficulty'', PInt (difficulty q))]"

section \<open>Pagination\<close>

definition QUESTIONS_PER_PAGE :: int where
  "QUESTIONS_PER_PAGE = 10"

text \<open>
  \<^verbatim>\<open>request.args.get("page", 1, type=int)\<close>: the field \<open>page_arg\<close> is the query
  parameter after the coercion to an integer, \<open>None\<close> when the parameter is absent or is
  not an integer, in which case the default 1 is taken.
\<close>

definition get_page :: "request \<Rightarrow> int" where
  "get_page req = (case page_arg req of None \<Rightarrow> 1 | Some p \<Rightarrow> p)"

definition paginate_questions :: "request \<Rightarrow> question list \<Rightarrow> pyval list" where
  "paginate_questions req selection =
     (let page = get_page req;
          start = (page - 1) * QUESTIONS_PER_PAGE;
          end' = start + QUESTIONS_PER_PAGE;
          questions = map format selection;
          current_questions = py_slice questions start end'
      in current_questions)"

text \<open>The half-open slice \<open>[a : b]\<close> of the spec, for \<open>0 \<le> a \<le> b\<close>, written with take and drop.\<close>

definition half_open_slice :: "'a list \<Rightarrow> nat \<Rightarrow> nat \<Rightarrow> 'a list" where
  "half_open_slice xs a b = take (b - a) (drop a xs)"

section \<open>Python operations used by the handlers\<close>

text \<open>
  Equality \<^verbatim>\<open>==\<close> of Python values: a boolean equals the integer 0 or 1, lists are
  compared element by element, dictionaries key by key whatever the order of insertion.
\<close>

function (sequential) py_eq :: "pyval \<Rightarrow> pyval \<Rightarrow> bool" where
  "py_eq PNone PNone = True"
| "py_eq (PBool a) (PBool b) = (a = b)"
| "py_eq (PBool a) (PInt n) = ((if a then 1 else 0) = n)"
| "py_eq (PInt n) (PBool a) = (n = (if a then 1 else 0))"
| "py_eq (PInt m) (PInt n) = (m = n)"
| "py_eq (PStr s) (PStr t) = (s = t)"
| "py_eq (PList xs) (PList ys) =
     (length xs = length ys \<and> list_all (\<lambda>(x, y). py_eq x y) (zip xs ys))"
| "py_eq (PDict xs) (PDict ys) =
     (length xs = length ys \<and>
      list_all (\<lambda>(k, v). case map_of ys k of None \<Rightarrow> False | Some w \<Rightarrow> py_eq v w) xs)"
| "py_eq _ _ = False"
  by pat_completeness auto
termination
proof (relation "measure (\<lambda>(x, y). size x)")
  show "wf (measure (\<lambda>(x, y). size x))" by simp
next
  fix xs ys :: "pyval list" and z :: "pyval \<times> pyval" and a b :: pyval
  assume "z \<in> set (zip xs ys)" and "(a, b) = z"
  then have "a \<in> set xs" by (auto dest: set_zip_leftD)
  then have "size a \<le> size_list size xs" by (rule size_list_estimation') simp
  then show "((a, b), PList xs, PList ys) \<in> measure (\<lambda>(x, y). size x)" by simp
next
  fix xs ys :: "(key \<times> pyval) list" and z :: "key \<times> pyval" and k :: key and v w :: pyval
  assume "z \<in> set xs" and "(k, v) = z"
  then have "(k, v) \<in> set xs" by simp
  then have "size v < Suc (size_list (size_prod (\<lambda>x. 0) size) xs)"
    by (induction xs) auto
  then show "((v, w), PDict xs, PDict ys) \<in> measure (\<lambda>(x, y). size x)" by simp
qed

text \<open>
  The membership test \<^verbatim>\<open>x in c\<close>. A list is searched with \<^verbatim>\<open>==\<close>; a string accepts
  only a string on the left; a dictionary looks the value up among its keys and rejects an
  unhashable list or dictionary; any other right operand is not iterable.
\<close>

fun py_in :: "pyval \<Rightarrow> pyval \<Rightarrow> py_error + bool" where
  "py_in x (PList ys) = Inr (list_ex (\<lambda>y. py_eq y x) ys)"
| "py_in (PStr t) (PStr s) = Inr (sublist t s)"
| "py_in x (PStr s) = Inl TypeError"
| "py_in PNone (PDict kvs) = Inr False"
| "py_in (PBool b) (PDict kvs) = Inr (KInt (if b then 1 else 0) \<in> fst ` set kvs)"
| "py_in (PInt n) (PDict kvs) = Inr (KInt n \<in> fst ` set kvs)"
| "py_in (PStr t) (PDict kvs) = Inr (KStr t \<in> fst ` set kvs)"
| "py_in x (PDict kvs) = Inl TypeError"
| "py_in x c = Inl TypeError"

text \<open>\<^verbatim>\<open>len(c)\<close>.\<close>

fun py_len :: "pyval \<Rightarrow> py_error + nat" where
  "py_len (PList xs) = Inr (length xs)"
| "py_len (PStr s) = Inr (length s)"
| "py_len (PDict kvs) = Inr (length kvs)"
| "py_len c = Inl TypeError"

text \<open>\<^verbatim>\<open>d.get(k, None)\<close>: only a dictionary has the method.\<close>

fun py_get :: "pyval \<Rightarrow> string \<Rightarrow> py_error + pyval" where
  "py_get (PDict kvs) k = Inr (case map_of kvs (KStr k) of None \<Rightarrow> PNone | Some v \<Rightarrow> v)"
| "py_get d k = Inl AttributeError"

text \<open>
  The subscript \<^verbatim>\<open>d[k]\<close> with a string \<open>k\<close>: a dictionary without the key raises
  KeyError; a list and a string want an integer index, other values are not subscriptable.
\<close>

fun py_subscript :: "pyval \<Rightarrow> string \<Rightarrow> py_error + pyval" where
  "py_subscript (PDict kvs) k = (case map_of kvs (KStr k) of None \<Rightarrow> Inl KeyError | Some v \<Rightarrow> Inr v)"
| "py_subscript d k = Inl TypeError"

text \<open>
  \<^verbatim>\<open>"{}".format(v)\<close> is \<^verbatim>\<open>str(v)\<close>: a string itself, and \<^verbatim>\<open>repr(v)\<close> for
  every other value. The function \<open>repr\<close> is a parameter of the model; the handlers never
  inspect the text it returns.
\<close>

fun py_format :: "(pyval \<Rightarrow> string) \<Rightarrow> pyval \<Rightarrow> string" where
  "py_format repr (PStr s) = s"
| "py_format repr v = repr v"

text \<open>
  \<^verbatim>\<open>random.choice(seq)\<close> raises IndexError on an empty sequence and otherwise returns
  the element at a random index below the length. The random numbers are read from a tape
  of naturals, one per call; a number \<open>r\<close> selects the index \<open>r mod length seq\<close>.
\<close>

definition random_choice :: "'a list \<Rightarrow> nat \<Rightarrow> py_error + 'a" where
  "random_choice seq r = (if seq = [] then Inl IndexError else Inr (seq ! (r mod length seq)))"

section \<open>The store\<close>

text \<open>
  Modelled from the spec: the queries are executed by the object-relational mapper and
  the methods \<^verbatim>\<open>insert\<close> and \<^verbatim>\<open>delete\<close> are defined in \<^verbatim>\<open>models.py\<close>, none of
  which is among the sources. Section 6 of the spec asks of the store: reads of all rows,
  filter by equality, filter by case-insensitive pattern, order by id, insert and delete
  that are visible to the reads that follow. \<^verbatim>\<open>Question.query.all()\<close> is the list
  \<open>questions s\<close> in the order of the table.
\<close>

definition one_or_none :: "'a list \<Rightarrow> py_error + 'a option" where
  "one_or_none rows =
     (case rows of
        [] \<Rightarrow> Inr None
      | [r] \<Rightarrow> Inr (Some r)
      | _ \<Rightarrow> Inl MultipleResultsFound)"

definition delete_row :: "question \<Rightarrow> store \<Rightarrow> store" where
  "delete_row q s = s\<lparr>questions := filter (\<lambda>r. qid r \<noteq> qid q) (questions s)\<rparr>"

definition next_id :: "store \<Rightarrow> int" where
  "next_id s = fold (\<lambda>q m. max (qid q) m) (questions s) 0 + 1"

text \<open>
  The new row takes a fresh id. Values that do not fit the columns of section 3 of the
  spec (two strings, two integers) make the store raise.
\<close>

fun insert_row :: "store \<Rightarrow> pyval \<Rightarrow> pyval \<Rightarrow> pyval \<Rightarrow> pyval \<Rightarrow> py_error + (question \<times> store)" where
  "insert_row s (PStr q) (PStr a) (PInt c) (PInt d) =
     (let row = \<lparr>qid = next_id s, qtext = q, answer = a, category = c, difficulty = d\<rparr>
      in Inr (row, s\<lparr>questions := questions s @ [row]\<rparr>))"
| "insert_row s q a c d = Inl DataError"

text \<open>
  Filter by equality on the category column, an integer. An integer key selects the rows
  of that category; a string key is compared with the text of the column value; a null
  key selects nothing; any other key makes the store raise.
\<close>

fun filter_by_category :: "(pyval \<Rightarrow> string) \<Rightarrow> store \<Rightarrow> pyval \<Rightarrow> py_error + question list" where
  "filter_by_category repr s (PInt n) = Inr (filter (\<lambda>q. category q = n) (questions s))"
| "filter_by_category repr s (PStr t) = Inr (filter (\<lambda>q. repr (PInt (category q)) = t) (questions s))"
| "filter_by_category repr s PNone = Inr []"
| "filter_by_category repr s v = Inl DataError"

text \<open>
  \<^verbatim>\<open>Question.question.ilike(pattern)\<close> is the pattern operator of the store: in the
  pattern \<^verbatim>\<open>%\<close> stands for any sequence of characters, \<^verbatim>\<open>_\<close> for any one
  character, a backslash takes the next character literally, and letters match without
  regard to case (here: the letters of ASCII).
\<close>

definition lower :: "char \<Rightarrow> char" where
  "lower c =
     (if 65 \<le> (of_char c :: nat) \<and> (of_char c :: nat) \<le> 90
      then char_of (of_char c + 32 :: nat) else c)"

fun sql_like :: "string \<Rightarrow> string \<Rightarrow> bool" where
  "sql_like [] t = (t = [])"
| "sql_like (p # ps) t =
     (if p = CHR ''%'' then
        sql_like ps t \<or> (case t of [] \<Rightarrow> False | c # t' \<Rightarrow> sql_like (p # ps) t')
      else if p = CHR ''_'' then
        (case t of [] \<Rightarrow> False | c # t' \<Rightarrow> sql_like ps t')
      else if p = CHR 0x5C then
        (case ps of
           [] \<Rightarrow> False
         | e # ps' \<Rightarrow> (case t of [] \<Rightarrow> False | c # t' \<Rightarrow> e = c \<and> sql_like ps' t'))
      else (case t of [] \<Rightarrow> False | c # t' \<Rightarrow> p = c \<and> sql_like ps t'))"

definition ilike :: "string \<Rightarrow> string \<Rightarrow> bool" where
  "ilike pattern t = sql_like (map lower pattern) (map lower t)"

text \<open>
  The case-insensitive substring match of the spec: the search term occurs in the text
  once both are put in lower case.
\<close>

definition ci_substring :: "string \<Rightarrow> string \<Rightarrow> bool" where
  "ci_substring needle t = sublist (map lower needle) (map lower t)"

definition pattern_free :: "string \<Rightarrow> bool" where
  "pattern_free needle = (\<forall>c \<in> set needle. c \<noteq> CHR ''%'' \<and> c \<noteq> CHR ''_'' \<and> c \<noteq> CHR 0x5C)"

section \<open>Responses\<close>

text \<open>
  What running a view function comes to: it returns the dictionary it gave to
  \<^verbatim>\<open>jsonify\<close>, or \<^verbatim>\<open>abort(code)\<close> raised an HTTP exception, or another exception
  was raised.
\<close>

datatype outcome = Return pyval | Abort int | Raise py_error

text \<open>
  \<^verbatim>\<open>try: ... except: abort(code)\<close>. The bare \<^verbatim>\<open>except\<close> clause catches every
  exception of the block, the HTTP exception of an \<^verbatim>\<open>abort\<close> included.
\<close>

fun try_except :: "outcome \<Rightarrow> int \<Rightarrow> outcome" where
  "try_except (Return v) code = Return v"
| "try_except (Abort c) code = Abort code"
| "try_except (Raise e) code = Abort code"

text \<open>
  The response sent to the client: a status with a JSON body, the page of the framework
  for an aborted request whose code has no registered handler, or the answer of the
  framework to an exception that nothing caught, which carries status 500.
\<close>

datatype response = Response int pyval | DefaultPage int | Uncaught py_error

fun status :: "response \<Rightarrow> int" where
  "status (Response code body) = code"
| "status (DefaultPage code) = code"
| "status (Uncaught e) = 500"

definition not_found :: response where
  "not_found = Response 404 (PDict
     [(KStr ''success'', PBool False),
      (KStr ''error'', PInt 404),
      (KStr ''message'', PStr ''resource not found'')])"

definition unprocessable :: response where
  "unprocessable = Response 422 (PDict
     [(KStr ''success'', PBool False),
      (KStr ''error'', PInt 422),
      (KStr ''message'', PStr ''unprocessable'')])"

definition bad_request :: response where
  "bad_request = Response 400 (PDict
     [(KStr ''success'', PBool False),
      (KStr ''error'', PInt 400),
      (KStr ''message'', PStr ''bad request'')])"

text \<open>The framework turns the outcome of a view function into the response.\<close>

fun respond :: "outcome \<Rightarrow> response" where
  "respond (Return body) = Response 200 body"
| "respond (Abort code) =
     (if code = 404 then not_found
      else if code = 422 then unprocessable
      else if code = 400 then bad_request
      else DefaultPage code)"
| "respond (Raise e) = Uncaught e"

section \<open>The handlers\<close>

definition categories_dict :: "category_row list \<Rightarrow> (key \<times> pyval) list" where
  "categories_dict cats =
     fold (\<lambda>c d. AList.update (KInt (cid c)) (PStr (ctype c)) d) cats []"

definition retrieve_categories :: "store \<Rightarrow> outcome" where
  "retrieve_categories s =
     (let cats = categories s;
          d = categories_dict cats
      in if length cats = 0 then Abort 404
         else Return (PDict
           [(KStr ''success'', PBool True),
            (KStr ''categories'', PDict d)]))"

definition retrieve_questions :: "store \<Rightarrow> request \<Rightarrow> outcome" where
  "retrieve_questions s req =
     (let selection = questions s;
          current_questions = paginate_questions req selection;
          cats = categories s;
          d = categories_dict cats
      in if length current_questions = 0 then Abort 404
         else Return (PDict
           [(KStr ''success'', PBool True),
            (KStr ''questions'', PList current_questions),
            (KStr ''total_questions'', PInt (int (length selection))),
            (KStr ''categories'', PDict d)]))"

text \<open>The block under \<^verbatim>\<open>try\<close> of \<^verbatim>\<open>delete_question\<close>, then the handler.\<close>

definition delete_question_try :: "store \<Rightarrow> request \<Rightarrow> int \<Rightarrow> outcome \<times> store" where
  "delete_question_try s req question_id =
     (case one_or_none (filter (\<lambda>q. qid q = question_id) (questions s)) of
        Inl e \<Rightarrow> (Raise e, s)
      | Inr None \<Rightarrow> (Abort 404, s)
      | Inr (Some question) \<Rightarrow>
          (let s' = delete_row question s;
               selection = questions s';
               current_questions = paginate_questions req selection
           in (Return (PDict
                 [(KStr ''success'', PBool True),
                  (KStr ''deleted'', PInt question_id),
                  (KStr ''questions'', PList current_questions),
                  (KStr ''total_questions'', PInt (int (length selection)))]), s')))"

definition delete_question :: "store \<Rightarrow> request \<Rightarrow> int \<Rightarrow> outcome \<times> store" where
  "delete_question s req question_id =
     (let (r, s') = delete_question_try s req question_id
      in (try_except r 422, s'))"

text \<open>
  \<^verbatim>\<open>create_question\<close>: the five fields are read from the body before the
  \<^verbatim>\<open>try\<close> block; the block follows.
\<close>

definition create_question_try ::
  "(pyval \<Rightarrow> string) \<Rightarrow> store \<Rightarrow> request \<Rightarrow> pyval \<Rightarrow> pyval \<Rightarrow> pyval \<Rightarrow> pyval \<Rightarrow> pyval
     \<Rightarrow> outcome \<times> store" where
  "create_question_try repr s req new_question new_answer new_category new_difficulty search =
     (if truthy search then
        (let selection = filter (\<lambda>q. ilike (''%'' @ py_format repr search @ ''%'') (qtext q))
                           (questions s);
             current_questions = paginate_questions req selection
         in (Return (PDict
               [(KStr ''success'', PBool True),
                (KStr ''questions'', PList current_questions),
                (KStr ''total_questions'', PInt (int (length (questions s))))]), s))
      else if new_question = PNone \<or> new_answer = PNone
                \<or> new_difficulty = PNone \<or> new_category = PNone then (Abort 422, s)
      else
        (case insert_row s new_question new_answer new_category new_difficulty of
           Inl e \<Rightarrow> (Raise e, s)
         | Inr (question, s') \<Rightarrow>
             (let selection = sort_key qid (questions s');
                  current_questions = paginate_questions req selection
              in (Return (PDict
                    [(KStr ''success'', PBool True),
                     (KStr ''created'', PInt (qid question)),
                     (KStr ''questions'', PList current_questions),
                     (KStr ''total_questions'', PInt (int (length selection)))]), s'))))"

definition create_question :: "(pyval \<Rightarrow> string) \<Rightarrow> store \<Rightarrow> request \<Rightarrow> outcome \<times> store" where
  "create_question repr s req =
     (let body = json_body req in
      (case py_get body ''question'' of Inl e \<Rightarrow> (Raise e, s) | Inr new_question \<Rightarrow>
      (case py_get body ''answer'' of Inl e \<Rightarrow> (Raise e, s) | Inr new_answer \<Rightarrow>
      (case py_get body ''category'' of Inl e \<Rightarrow> (Raise e, s) | Inr new_category \<Rightarrow>
      (case py_get body ''difficulty'' of Inl e \<Rightarrow> (Raise e, s) | Inr new_difficulty \<Rightarrow>
      (case py_get body ''search'' of Inl e \<Rightarrow> (Raise e, s) | Inr search \<Rightarrow>
        (let (r, s') = create_question_try repr s req
                         new_question new_answer new_category new_difficulty search
         in (try_except r 422, s'))))))))"

text \<open>
  \<^verbatim>\<open>search_questions\<close>: without a truthy search term the variable \<^verbatim>\<open>selection\<close>
  is never assigned, and reading it raises inside the \<^verbatim>\<open>try\<close> block.
\<close>

definition search_questions_try :: "(pyval \<Rightarrow> string) \<Rightarrow> store \<Rightarrow> request \<Rightarrow> pyval \<Rightarrow> outcome" where
  "search_questions_try repr s req search =
     (if truthy search then
        (let selection = filter (\<lambda>q. ilike (''%'' @ py_format repr search @ ''%'') (qtext q))
                           (questions s);
             paginated = paginate_questions req selection
         in Return (PDict
              [(KStr ''success'', PBool True),
               (KStr ''questions'', PList paginated),
               (KStr ''total_questions'', PInt (int (length selection)))]))
      else Raise UnboundLocalError)"

definition search_questions :: "(pyval \<Rightarrow> string) \<Rightarrow> store \<Rightarrow> request \<Rightarrow> outcome" where
  "search_questions repr s req =
     (let body = json_body req in
      (case py_get body ''searchTerm'' of
         Inl e \<Rightarrow> Raise e
       | Inr search \<Rightarrow> try_except (search_questions_try repr s req search) 404))"

definition retrieve_questions_by_category_try :: "(pyval \<Rightarrow> string) \<Rightarrow> store \<Rightarrow> int \<Rightarrow> outcome" where
  "retrieve_questions_by_category_try repr s category_id =
     (case filter_by_category repr s (PStr (repr (PInt category_id))) of
        Inl e \<Rightarrow> Raise e
      | Inr qs \<Rightarrow>
          Return (PDict
            [(KStr ''success'', PBool True),
             (KStr ''questions'', PList (map format qs)),
             (KStr ''total_questions'', PInt (int (length qs))),
             (KStr ''current_category'', PInt category_id)]))"

definition retrieve_questions_by_category :: "(pyval \<Rightarrow> string) \<Rightarrow> store \<Rightarrow> int \<Rightarrow> outcome" where
  "retrieve_questions_by_category repr s category_id =
     try_except (retrieve_questions_by_category_try repr s category_id) 400"

text \<open>
  \<^verbatim>\<open>play_quiz\<close>. The loop \<^verbatim>\<open>while(if_used(new_question))\<close> draws again and then
  compares the two lengths; it has no bound of its own. Each draw reads one number of the
  tape, and the result is \<open>None\<close> when the tape ends before the handler returns.
\<close>

definition if_used :: "pyval \<Rightarrow> pyval \<Rightarrow> py_error + bool" where
  "if_used previous_questions new_question = py_in new_question previous_questions"

fun quiz_loop :: "question list \<Rightarrow> pyval \<Rightarrow> pyval \<Rightarrow> nat list \<Rightarrow> outcome option" where
  "quiz_loop quiz previous_questions new_question [] =
     (case if_used previous_questions new_question of
        Inl e \<Rightarrow> Some (Raise e)
      | Inr used \<Rightarrow>
          if used then None
          else Some (Return (PDict
                 [(KStr ''success'', PBool True),
                  (KStr ''question'', new_question)])))"
| "quiz_loop quiz previous_questions new_question (r # tape) =
     (case if_used previous_questions new_question of
        Inl e \<Rightarrow> Some (Raise e)
      | Inr used \<Rightarrow>
          if used then
            (case random_choice quiz r of
               Inl e \<Rightarrow> Some (Raise e)
             | Inr q \<Rightarrow>
                 (case py_len previous_questions of
                    Inl e \<Rightarrow> Some (Raise e)
                  | Inr n \<Rightarrow>
                      if n = length quiz
                      then Some (Return (PDict [(KStr ''success'', PBool True)]))
                      else quiz_loop quiz previous_questions (format q) tape))
          else Some (Return (PDict
                 [(KStr ''success'', PBool True),
                  (KStr ''question'', new_question)])))"

definition play_quiz :: "(pyval \<Rightarrow> string) \<Rightarrow> store \<Rightarrow> request \<Rightarrow> nat list \<Rightarrow> outcome option" where
  "play_quiz repr s req tape =
     (let body = json_body req in
      (case py_get body ''previous_questions'' of Inl e \<Rightarrow> Some (Raise e) | Inr previous_questions \<Rightarrow>
      (case py_get body ''quiz_category'' of Inl e \<Rightarrow> Some (Raise e) | Inr quiz_category \<Rightarrow>
        if py_eq quiz_category PNone \<or> py_eq previous_questions PNone then Some (Abort 422)
        else
          (case py_subscript quiz_category ''id'' of Inl e \<Rightarrow> Some (Raise e) | Inr category_id \<Rightarrow>
          (case (if py_eq category_id (PInt 0) then Inr (questions s)
                 else filter_by_category repr s category_id) of
             Inl e \<Rightarrow> Some (Raise e)
           | Inr quiz \<Rightarrow>
               (case tape of
                  [] \<Rightarrow> None
                | r # tape' \<Rightarrow>
                    (case random_choice quiz r of
                       Inl e \<Rightarrow> Some (Raise e)
                     | Inr q \<Rightarrow> quiz_loop quiz previous_questions (format q) tape')))))))"

section \<open>The application\<close>

text \<open>The seven routes of the application, with the integer of the path where there is one.\<close>

datatype endpoint =
    GET_categories
  | GET_questions
  | DELETE_question int
  | POST_questions
  | POST_questions_search
  | GET_category_questions int
  | POST_quizzes

fun handle ::
  "(pyval \<Rightarrow> string) \<Rightarrow> nat list \<Rightarrow> store \<Rightarrow> endpoint \<Rightarrow> request \<Rightarrow> (response \<times> store) option" where
  "handle repr tape s GET_categories req = Some (respond (retrieve_categories s), s)"
| "handle repr tape s GET_questions req = Some (respond (retrieve_questions s req), s)"
| "handle repr tape s (DELETE_question question_id) req =
     (let (r, s') = delete_question s req question_id in Some (respond r, s'))"
| "handle repr tape s POST_questions req =
     (let (r, s') = create_question repr s req in Some (respond r, s'))"
| "handle repr tape s POST_questions_search req = Some (respond (search_questions repr s req), s)"
| "handle repr tape s (GET_category_questions category_id) req =
     Some (respond (retrieve_questions_by_category repr s category_id), s)"
| "handle repr tape s POST_quizzes req =
     (case play_quiz repr s req tape of None \<Rightarrow> None | Some r \<Rightarrow> Some (respond r, s))"

section \<open>Sample data\<close>

definition sample_question :: "int \<Rightarrow> int \<Rightarrow> question" where
  "sample_question i c =
     \<lparr>qid = i, qtext = ''Question'', answer = ''Answer'', category = c, difficulty = 1\<rparr>"

definition sample_store :: store where
  "sample_store =
     \<lparr>questions = [sample_question 1 1, sample_question 2 1, sample_question 3 2],
      categories = [\<lparr>cid = 1, ctype = ''Science''\<rparr>, \<lparr>cid = 2, ctype = ''Art''\<rparr>]\<rparr>"

definition eleven_questions :: "question list" where
  "eleven_questions = map (\<lambda>i. sample_question i 1) [1, 2, 3, 4, 5, 6, 7, 8, 9, 10, 11]"

definition store_without_categories :: store where
  "store_without_categories = \<lparr>questions = [sample_question 1 1], categories = []\<rparr>"

definition search_request :: "string \<Rightarrow> request" where
  "search_request needle = \<lparr>page_arg = None, json_body = PDict [(KStr ''search'', PStr needle)]\<rparr>"

definition quiz_request :: "pyval \<Rightarrow> pyval \<Rightarrow> request" where
  "quiz_request previous_questions category_id =
     \<lparr>page_arg = None,
      json_body = PDict
        [(KStr ''previous_questions'', previous_questions),
         (KStr ''quiz_category'', PDict [(KStr ''type'', PStr ''click''), (KStr ''id'', category_id)])]\<rparr>"

definition empty_store :: store where
  "empty_store = \<lparr>questions = [], categories = []\<rparr>"

text \<open>
  The responses of the error mapper and of a successful return, and the answer of the
  framework to an exception that escaped the view function.
\<close>

definition handled :: "response \<Rightarrow> bool" where
  "handled r \<longleftrightarrow>
     (\<exists>body. r = Response 200 body) \<or> r = bad_request \<or> r = not_found \<or> r = unprocessable"

definition escapes :: "response \<Rightarrow> bool" where
  "escapes r \<longleftrightarrow> (\<exists>e. r = Uncaught e)"

section \<open>Properties of the pagination\<close>

lemma py_slice_nonneg:
  assumes "0 \<le> a" and "a \<le> b"
  shows "py_slice xs a b = half_open_slice xs (nat a) (nat b)"
proof (cases "int (length xs) \<le> a")
  case True
  with assms show ?thesis
    by (simp add: py_slice_def slice_index_def half_open_slice_def Let_def)
next
  case False
  with assms show ?thesis
    by (auto simp: py_slice_def slice_index_def half_open_slice_def Let_def min_def
        nat_diff_distrib)
qed

lemma slice_index_bounds: "0 \<le> slice_index (int n) i \<and> slice_index (int n) i \<le> int n"
  by (simp add: slice_index_def)

lemma py_slice_empty_iff:
  "py_slice xs a b = [] \<longleftrightarrow>
     slice_index (int (length xs)) b \<le> slice_index (int (length xs)) a
     \<or> int (length xs) \<le> slice_index (int (length xs)) a"
proof -
  have "0 \<le> slice_index (int (length xs)) a" by (simp add: slice_index_bounds)
  then show ?thesis by (auto simp: py_slice_def Let_def)
qed

text \<open>
  C5, as the code has it. The pagination function is total: it returns a list for every
  page number and never raises. With \<open>p\<close> the page number and \<open>N\<close> the number of
  fetched questions, the page is empty exactly when \<open>p = 0\<close>, or \<open>p \<ge> 1\<close> lies
  beyond the last non-empty page (\<open>N \<le> (p - 1) * 10\<close>), or \<open>p < 0\<close> and
  \<open>N \<le> 10 * (- p)\<close>. A negative page number is not always answered by an empty page:
  Python counts a negative slice bound from the end of the list.
\<close>

theorem paginate_questions_empty_iff:
  "paginate_questions req sel = [] \<longleftrightarrow>
     (let p = get_page req; n = int (length sel)
      in if p < 0 then n \<le> - p * 10 else p = 0 \<or> n \<le> (p - 1) * 10)"
  by (auto simp: paginate_questions_def py_slice_empty_iff slice_index_def
      QUESTIONS_PER_PAGE_def Let_def)

theorem paginate_questions_empty_iff_witness:
  "paginate_questions \<lparr>page_arg = Some 3, json_body = PNone\<rparr> eleven_questions = []
   \<and> paginate_questions \<lparr>page_arg = Some 0, json_body = PNone\<rparr> eleven_questions = []
   \<and> paginate_questions \<lparr>page_arg = Some (- 2), json_body = PNone\<rparr> eleven_questions = []
   \<and> paginate_questions \<lparr>page_arg = Some 2, json_body = PNone\<rparr> eleven_questions \<noteq> []"
  using paginate_questions_empty_iff [of "\<lparr>page_arg = Some 3, json_body = PNone\<rparr>" eleven_questions]
    paginate_questions_empty_iff [of "\<lparr>page_arg = Some 0, json_body = PNone\<rparr>" eleven_questions]
    paginate_questions_empty_iff [of "\<lparr>page_arg = Some (- 2), json_body = PNone\<rparr>" eleven_questions]
    paginate_questions_empty_iff [of "\<lparr>page_arg = Some 2, json_body = PNone\<rparr>" eleven_questions]
  by (simp add: get_page_def eleven_questions_def)

text \<open>
  C5 as stated fails: with eleven questions fetched, the page number \<open>-1\<close>, which is
  less than 1, is answered by a page of one question, the first of the list.
\<close>

theorem paginate_negative_page_counterexample:
  "get_page \<lparr>page_arg = Some (- 1), json_body = PNone\<rparr> < 1
   \<and> paginate_questions \<lparr>page_arg = Some (- 1), json_body = PNone\<rparr> eleven_questions
       = [format (sample_question 1 1)]"
  by (simp add: paginate_questions_def get_page_def QUESTIONS_PER_PAGE_def py_slice_def
      slice_index_def eleven_questions_def)

text \<open>
  C6. For every page number \<open>p \<ge> 1\<close> and every fetched sequence of \<open>N\<close> questions,
  the page has length \<open>min(10, max(0, N - (p - 1) * 10))\<close> and is the half-open slice
  \<open>[(p - 1) * 10 : (p - 1) * 10 + 10]\<close> of the formatted sequence.
\<close>

theorem paginate_questions_page:
  assumes "1 \<le> get_page req"
  shows "int (length (paginate_questions req sel))
           = min 10 (max 0 (int (length sel) - (get_page req - 1) * 10))
         \<and> paginate_questions req sel
           = half_open_slice (map format sel)
               (nat ((get_page req - 1) * 10)) (nat ((get_page req - 1) * 10 + 10))"
proof -
  have slice: "paginate_questions req sel
      = half_open_slice (map format sel)
          (nat ((get_page req - 1) * 10)) (nat ((get_page req - 1) * 10 + 10))"
    using assms
    by (simp add: paginate_questions_def QUESTIONS_PER_PAGE_def Let_def py_slice_nonneg)
  have "int (length (half_open_slice (map format sel)
          (nat ((get_page req - 1) * 10)) (nat ((get_page req - 1) * 10 + 10))))
        = min 10 (max 0 (int (length sel) - (get_page req - 1) * 10))"
    using assms by (auto simp: half_open_slice_def min_def max_def nat_diff_distrib)
  with slice show ?thesis by simp
qed

theorem paginate_questions_page_witness:
  "1 \<le> get_page \<lparr>page_arg = Some 2, json_body = PNone\<rparr>
   \<and> int (length (paginate_questions \<lparr>page_arg = Some 2, json_body = PNone\<rparr> eleven_questions)) = 1
   \<and> paginate_questions \<lparr>page_arg = Some 2, json_body = PNone\<rparr> eleven_questions
       = [format (sample_question 11 1)]"
  using paginate_questions_page [of "\<lparr>page_arg = Some 2, json_body = PNone\<rparr>" eleven_questions]
  by (simp add: get_page_def eleven_questions_def half_open_slice_def)

lemma paginate_questions_nil: "paginate_questions req [] = []"
  by (simp add: paginate_questions_def py_slice_def Let_def)

lemma paginate_questions_beyond:
  assumes "1 \<le> get_page req" and "int (length sel) \<le> (get_page req - 1) * 10"
  shows "paginate_questions req sel = []"
  using assms
  by (simp add: paginate_questions_def QUESTIONS_PER_PAGE_def Let_def py_slice_nonneg
      half_open_slice_def)

section \<open>Properties of the handlers\<close>

lemma status_handlers:
  "status not_found = 404" "status unprocessable = 422" "status bad_request = 400"
  by (simp_all add: not_found_def unprocessable_def bad_request_def)

text \<open>
  C7. GET /questions answers an empty page with status 404: so it does when the store
  holds no question and when the page number lies beyond the data. Otherwise it returns
  the page, the number of all questions of the store and the categories dictionary.
\<close>

theorem retrieve_questions_response:
  "(paginate_questions req (questions s) = [] \<longrightarrow>
      handle repr tape s GET_questions req = Some (not_found, s) \<and> status not_found = 404)
   \<and> (questions s = [] \<longrightarrow> handle repr tape s GET_questions req = Some (not_found, s))
   \<and> (1 \<le> get_page req \<and> int (length (questions s)) \<le> (get_page req - 1) * 10 \<longrightarrow>
        handle repr tape s GET_questions req = Some (not_found, s))
   \<and> (paginate_questions req (questions s) \<noteq> [] \<longrightarrow>
        handle repr tape s GET_questions req =
          Some (Response 200 (PDict
            [(KStr ''success'', PBool True),
             (KStr ''questions'', PList (paginate_questions req (questions s))),
             (KStr ''total_questions'', PInt (int (length (questions s)))),
             (KStr ''categories'', PDict (categories_dict (categories s)))]), s))"
proof -
  have empty: "handle repr tape s GET_questions req = Some (not_found, s)"
    if "paginate_questions req (questions s) = []"
    using that by (simp add: retrieve_questions_def Let_def)
  have "paginate_questions req (questions s) = []" if "questions s = []"
    using that by (simp add: paginate_questions_nil)
  moreover have "paginate_questions req (questions s) = []"
    if "1 \<le> get_page req \<and> int (length (questions s)) \<le> (get_page req - 1) * 10"
    using that by (simp add: paginate_questions_beyond)
  moreover have "handle repr tape s GET_questions req =
          Some (Response 200 (PDict
            [(KStr ''success'', PBool True),
             (KStr ''questions'', PList (paginate_questions req (questions s))),
             (KStr ''total_questions'', PInt (int (length (questions s)))),
             (KStr ''categories'', PDict (categories_dict (categories s)))]), s)"
    if "paginate_questions req (questions s) \<noteq> []"
    using that by (simp add: retrieve_questions_def Let_def)
  ultimately show ?thesis using empty by (simp add: status_handlers)
qed

theorem retrieve_questions_response_witness:
  "paginate_questions \<lparr>page_arg = Some 2, json_body = PNone\<rparr> (questions sample_store) = []
   \<and> handle (\<lambda>v. []) [] sample_store GET_questions \<lparr>page_arg = Some 2, json_body = PNone\<rparr>
       = Some (not_found, sample_store)
   \<and> paginate_questions \<lparr>page_arg = None, json_body = PNone\<rparr> (questions sample_store) \<noteq> []
   \<and> handle (\<lambda>v. []) [] sample_store GET_questions \<lparr>page_arg = None, json_body = PNone\<rparr>
       = Some (Response 200 (PDict
            [(KStr ''success'', PBool True),
             (KStr ''questions'', PList (map format (questions sample_store))),
             (KStr ''total_questions'', PInt 3),
             (KStr ''categories'',
              PDict [(KInt 1, PStr ''Science''), (KInt 2, PStr ''Art'')])]), sample_store)"
proof -
  have page2: "paginate_questions \<lparr>page_arg = Some 2, json_body = PNone\<rparr> (questions sample_store) = []"
    by (simp add: paginate_questions_def get_page_def QUESTIONS_PER_PAGE_def py_slice_def
        slice_index_def sample_store_def)
  have page1: "paginate_questions \<lparr>page_arg = None, json_body = PNone\<rparr> (questions sample_store)
      = map format (questions sample_store)"
    by (simp add: paginate_questions_def get_page_def QUESTIONS_PER_PAGE_def py_slice_def
        slice_index_def sample_store_def)
  have cats: "categories_dict (categories sample_store)
      = [(KInt 1, PStr ''Science''), (KInt 2, PStr ''Art'')]"
    by (simp add: categories_dict_def sample_store_def)
  have nonempty: "questions sample_store \<noteq> []" "length (questions sample_store) = 3"
    by (simp_all add: sample_store_def)
  show ?thesis
    using retrieve_questions_response
      [of "\<lparr>page_arg = Some 2, json_body = PNone\<rparr>" sample_store "\<lambda>v. []" "[]"]
      retrieve_questions_response
      [of "\<lparr>page_arg = None, json_body = PNone\<rparr>" sample_store "\<lambda>v. []" "[]"]
    by (simp add: page2 page1 cats nonempty)
qed

text \<open>
  C10. When the page of questions is not empty, GET /questions succeeds also on a store
  without categories and returns an empty categories dictionary, whereas GET /categories
  answers the empty category table with status 404.
\<close>

theorem retrieve_questions_without_categories:
  assumes "categories s = []" and "paginate_questions req (questions s) \<noteq> []"
  shows "handle repr tape s GET_questions req =
           Some (Response 200 (PDict
             [(KStr ''success'', PBool True),
              (KStr ''questions'', PList (paginate_questions req (questions s))),
              (KStr ''total_questions'', PInt (int (length (questions s)))),
              (KStr ''categories'', PDict [])]), s)
         \<and> handle repr tape s GET_categories req = Some (not_found, s)
         \<and> status not_found = 404"
  using assms
  by (simp add: retrieve_questions_def retrieve_categories_def categories_dict_def Let_def
      status_handlers)

theorem retrieve_questions_without_categories_witness:
  "categories store_without_categories = []
   \<and> paginate_questions \<lparr>page_arg = None, json_body = PNone\<rparr> (questions store_without_categories) \<noteq> []
   \<and> handle (\<lambda>v. []) [] store_without_categories GET_questions \<lparr>page_arg = None, json_body = PNone\<rparr>
       = Some (Response 200 (PDict
             [(KStr ''success'', PBool True),
              (KStr ''questions'', PList [format (sample_question 1 1)]),
              (KStr ''total_questions'', PInt 1),
              (KStr ''categories'', PDict [])]), store_without_categories)
   \<and> handle (\<lambda>v. []) [] store_without_categories GET_categories \<lparr>page_arg = None, json_body = PNone\<rparr>
       = Some (not_found, store_without_categories)"
proof -
  have page1: "paginate_questions \<lparr>page_arg = None, json_body = PNone\<rparr> (questions store_without_categories)
      = [format (sample_question 1 1)]"
    by (simp add: paginate_questions_def get_page_def QUESTIONS_PER_PAGE_def py_slice_def
        slice_index_def store_without_categories_def)
  have cats: "categories store_without_categories = []"
    by (simp add: store_without_categories_def)
  have len: "length (questions store_without_categories) = 1"
    by (simp add: store_without_categories_def)
  show ?thesis
    using retrieve_questions_without_categories
      [of store_without_categories "\<lparr>page_arg = None, json_body = PNone\<rparr>" "\<lambda>v. []" "[]"]
    by (simp add: page1 cats len)
qed

text \<open>
  DELETE /questions/{id} for an id that no question carries: \<^verbatim>\<open>abort(404)\<close> is called
  inside the \<^verbatim>\<open>try\<close> block, whose bare \<^verbatim>\<open>except\<close> clause catches the HTTP exception
  and aborts with 422 instead. The store is left as it was.
\<close>

lemma delete_question_absent:
  assumes "\<forall>q \<in> set (questions s). qid q \<noteq> question_id"
  shows "delete_question s req question_id = (Abort 422, s)"
proof -
  have "filter (\<lambda>q. qid q = question_id) (questions s) = []"
    using assms by (simp add: filter_empty_conv)
  then show ?thesis
    by (simp add: delete_question_def delete_question_try_def one_or_none_def)
qed

text \<open>
  C2 at a concrete request: the sample store holds the questions 1, 2 and 3, and
  DELETE /questions/99 is answered with status 422, not 404, the store unchanged.
\<close>

theorem delete_question_absent_sample:
  "map qid (questions sample_store) = [1, 2, 3]
   \<and> handle (\<lambda>v. []) [] sample_store (DELETE_question 99) \<lparr>page_arg = None, json_body = PNone\<rparr>
       = Some (unprocessable, sample_store)
   \<and> status unprocessable = 422"
  by (simp add: delete_question_def delete_question_try_def one_or_none_def sample_store_def
      sample_question_def status_handlers)

section \<open>Patterns and substrings\<close>

lemma lower_fixed:
  "lower (CHR ''%'') = CHR ''%''" "lower (CHR ''_'') = CHR ''_''" "lower (CHR 0x5C) = CHR 0x5C"
  by (simp_all add: lower_def)

lemma lower_not_pattern:
  assumes "c \<noteq> CHR ''%''" and "c \<noteq> CHR ''_''" and "c \<noteq> CHR 0x5C"
  shows "lower c \<noteq> CHR ''%'' \<and> lower c \<noteq> CHR ''_'' \<and> lower c \<noteq> CHR 0x5C"
proof (cases "65 \<le> (of_char c :: nat) \<and> (of_char c :: nat) \<le> 90")
  case True
  then have "(of_char (lower c) :: nat) = of_char c + 32"
    by (simp add: lower_def)
  with True have "97 \<le> (of_char (lower c) :: nat)" by simp
  then show ?thesis by auto
next
  case False
  then have "lower c = c" unfolding lower_def by (rule if_not_P)
  with assms show ?thesis by simp
qed

lemma pattern_free_lower:
  assumes "pattern_free p"
  shows "pattern_free (map lower p)"
  unfolding pattern_free_def
proof
  fix c
  assume "c \<in> set (map lower p)"
  then obtain d where d: "d \<in> set p" and c: "c = lower d" by auto
  from assms d have "d \<noteq> CHR ''%''" and "d \<noteq> CHR ''_''" and "d \<noteq> CHR 0x5C"
    by (simp_all add: pattern_free_def)
  then show "c \<noteq> CHR ''%'' \<and> c \<noteq> CHR ''_'' \<and> c \<noteq> CHR 0x5C"
    unfolding c by (rule lower_not_pattern)
qed

lemma sql_like_literal:
  assumes "pattern_free p"
  shows "sql_like (p @ ps) t \<longleftrightarrow> (\<exists>t'. t = p @ t' \<and> sql_like ps t')"
  using assms
proof (induction p arbitrary: t)
  case Nil
  then show ?case by simp
next
  case (Cons c p)
  then have c: "c \<noteq> CHR ''%''" "c \<noteq> CHR ''_''" "c \<noteq> CHR 0x5C" and p: "pattern_free p"
    by (simp_all add: pattern_free_def)
  show ?case
  proof (cases t)
    case Nil
    with c show ?thesis by simp
  next
    case (Cons d t')
    with c Cons.IH [OF p] show ?thesis by auto
  qed
qed

lemma sql_like_percent_all: "sql_like ''%'' t"
  by (induction t) simp_all

lemma sql_like_percent:
  "sql_like (CHR ''%'' # ps) t \<longleftrightarrow> (\<exists>pre post. t = pre @ post \<and> sql_like ps post)"
proof (induction t)
  case Nil
  then show ?case by simp
next
  case (Cons d t)
  have "sql_like (CHR ''%'' # ps) (d # t) \<longleftrightarrow> sql_like ps (d # t) \<or> sql_like (CHR ''%'' # ps) t"
    by simp
  also have "\<dots> \<longleftrightarrow> sql_like ps (d # t) \<or> (\<exists>pre post. t = pre @ post \<and> sql_like ps post)"
    using Cons.IH by simp
  also have "\<dots> \<longleftrightarrow> (\<exists>pre post. d # t = pre @ post \<and> sql_like ps post)"
    by (auto simp: Cons_eq_append_conv)
  finally show ?case .
qed

lemma sql_like_substring:
  assumes "pattern_free p"
  shows "sql_like (''%'' @ p @ ''%'') t \<longleftrightarrow> sublist p t"
proof -
  have lit: "sql_like (p @ ''%'') post \<longleftrightarrow> (\<exists>t'. post = p @ t')" for post
    unfolding sql_like_literal [OF assms] using sql_like_percent_all by blast
  have "sql_like (''%'' @ p @ ''%'') t \<longleftrightarrow> (\<exists>pre post. t = pre @ post \<and> sql_like (p @ ''%'') post)"
    using sql_like_percent [of "p @ ''%''" t] by simp
  also have "\<dots> \<longleftrightarrow> (\<exists>pre post. t = pre @ post \<and> (\<exists>t'. post = p @ t'))"
    by (simp only: lit)
  also have "\<dots> \<longleftrightarrow> sublist p t"
    by (auto simp: sublist_def)
  finally show ?thesis .
qed

lemma ilike_substring:
  assumes "pattern_free needle"
  shows "ilike (''%'' @ needle @ ''%'') t \<longleftrightarrow> ci_substring needle t"
proof -
  have "map lower (''%'' @ needle @ ''%'') = ''%'' @ map lower needle @ ''%''"
    by (simp add: lower_fixed)
  then show ?thesis
    using sql_like_substring [OF pattern_free_lower [OF assms], of "map lower t"]
    by (simp add: ilike_def ci_substring_def)
qed


lemma py_get_Inr_dict:
  assumes "py_get body k = Inr v"
  obtains kvs where "body = PDict kvs"
  using assms by (cases body) simp_all

text \<open>
  A body that is not a JSON object has no method \<^verbatim>\<open>get\<close>: the first read of a field
  raises before the \<^verbatim>\<open>try\<close> block is entered, and nothing catches the exception.
\<close>

lemma create_question_not_object:
  assumes "\<forall>kvs. json_body req \<noteq> PDict kvs"
  shows "handle repr tape s POST_questions req = Some (Uncaught AttributeError, s)"
proof -
  have "py_get (json_body req) ''question'' = Inl AttributeError"
    using assms by (cases "json_body req") simp_all
  then show ?thesis by (simp add: create_question_def)
qed

text \<open>
  C8 as stated fails: the bodies \<^verbatim>\<open>[]\<close> and \<^verbatim>\<open>null\<close> carry no truthy
  \<^verbatim>\<open>search\<close> field and none of the four fields, yet the request is not answered with
  status 422: the exception escapes and the framework answers with status 500.
\<close>

theorem create_question_not_object_counterexample:
  "handle (\<lambda>v. []) [] sample_store POST_questions \<lparr>page_arg = None, json_body = PList []\<rparr>
     = Some (Uncaught AttributeError, sample_store)
   \<and> handle (\<lambda>v. []) [] sample_store POST_questions \<lparr>page_arg = None, json_body = PNone\<rparr>
     = Some (Uncaught AttributeError, sample_store)
   \<and> status (Uncaught AttributeError) = 500
   \<and> status unprocessable = 422"
  by (simp add: create_question_def unprocessable_def)

text \<open>
  C8, as the code has it. Every field of the body can be read exactly when the body is a
  JSON object. A POST /questions request whose body is a JSON object with no truthy
  \<^verbatim>\<open>search\<close> field and without one of \<^verbatim>\<open>question\<close>, \<^verbatim>\<open>answer\<close>,
  \<^verbatim>\<open>category\<close>, \<^verbatim>\<open>difficulty\<close> (absent or null) is answered with status 422, and
  the store is returned unchanged: no question is inserted.
\<close>

theorem create_question_missing_field:
  assumes "py_get (json_body req) ''search'' = Inr search" and "\<not> truthy search"
    and "py_get (json_body req) ''question'' = Inr PNone
         \<or> py_get (json_body req) ''answer'' = Inr PNone
         \<or> py_get (json_body req) ''category'' = Inr PNone
         \<or> py_get (json_body req) ''difficulty'' = Inr PNone"
  shows "handle repr tape s POST_questions req = Some (unprocessable, s)
         \<and> status unprocessable = 422"
proof -
  from assms(1) obtain kvs where body: "json_body req = PDict kvs"
    by (rule py_get_Inr_dict)
  have "create_question_try repr s req
          (case map_of kvs (KStr ''question'') of None \<Rightarrow> PNone | Some v \<Rightarrow> v)
          (case map_of kvs (KStr ''answer'') of None \<Rightarrow> PNone | Some v \<Rightarrow> v)
          (case map_of kvs (KStr ''category'') of None \<Rightarrow> PNone | Some v \<Rightarrow> v)
          (case map_of kvs (KStr ''difficulty'') of None \<Rightarrow> PNone | Some v \<Rightarrow> v)
          search = (Abort 422, s)"
    using assms(2,3) unfolding body create_question_try_def by auto
  moreover have "(case map_of kvs (KStr ''search'') of None \<Rightarrow> PNone | Some v \<Rightarrow> v) = search"
    using assms(1) unfolding body by simp
  ultimately have "create_question repr s req = (Abort 422, s)"
    unfolding create_question_def body by simp
  then show ?thesis by (simp add: status_handlers)
qed

theorem create_question_missing_field_witness:
  "py_get (PDict [(KStr ''question'', PStr ''Why?''), (KStr ''answer'', PStr ''So.''),
                  (KStr ''category'', PInt 1)]) ''search'' = Inr PNone
   \<and> \<not> truthy PNone
   \<and> py_get (PDict [(KStr ''question'', PStr ''Why?''), (KStr ''answer'', PStr ''So.''),
                  (KStr ''category'', PInt 1)]) ''difficulty'' = Inr PNone
   \<and> handle (\<lambda>v. []) [] sample_store POST_questions
        \<lparr>page_arg = None,
         json_body = PDict [(KStr ''question'', PStr ''Why?''), (KStr ''answer'', PStr ''So.''),
                            (KStr ''category'', PInt 1)]\<rparr>
       = Some (unprocessable, sample_store)"
  using create_question_missing_field
    [of "\<lparr>page_arg = None,
          json_body = PDict [(KStr ''question'', PStr ''Why?''), (KStr ''answer'', PStr ''So.''),
                             (KStr ''category'', PInt 1)]\<rparr>" PNone "\<lambda>v. []" "[]" sample_store]
  by simp

text \<open>
  C9, as the code has it. With a truthy \<^verbatim>\<open>search\<close> field, POST /questions returns the
  page of the questions whose text matches the pattern \<^verbatim>\<open>%search%\<close> of the store's
  case-insensitive pattern operator, and \<open>total_questions\<close> is the number of all
  questions of the store, not the number of matches. When the search text has none of
  the pattern characters \<^verbatim>\<open>%\<close>, \<^verbatim>\<open>_\<close> and backslash, the matches are the
  case-insensitive substring matches.
\<close>

theorem create_question_search:
  assumes "py_get (json_body req) ''search'' = Inr search" and "truthy search"
  shows "handle repr tape s POST_questions req =
           Some (Response 200 (PDict
             [(KStr ''success'', PBool True),
              (KStr ''questions'', PList (paginate_questions req
                 (filter (\<lambda>q. ilike (''%'' @ py_format repr search @ ''%'') (qtext q))
                    (questions s)))),
              (KStr ''total_questions'', PInt (int (length (questions s))))]), s)
         \<and> (pattern_free (py_format repr search) \<longrightarrow>
              filter (\<lambda>q. ilike (''%'' @ py_format repr search @ ''%'') (qtext q)) (questions s)
              = filter (\<lambda>q. ci_substring (py_format repr search) (qtext q)) (questions s))"
proof -
  from assms(1) obtain kvs where body: "json_body req = PDict kvs"
    by (rule py_get_Inr_dict)
  have search: "(case map_of kvs (KStr ''search'') of None \<Rightarrow> PNone | Some v \<Rightarrow> v) = search"
    using assms(1) unfolding body by simp
  have "create_question_try repr s req a b c d search =
          (Return (PDict
             [(KStr ''success'', PBool True),
              (KStr ''questions'', PList (paginate_questions req
                 (filter (\<lambda>q. ilike (''%'' @ py_format repr search @ ''%'') (qtext q))
                    (questions s)))),
              (KStr ''total_questions'', PInt (int (length (questions s))))]), s)" for a b c d
    using assms(2) unfolding create_question_try_def by (simp add: Let_def)
  then have "create_question repr s req =
          (Return (PDict
             [(KStr ''success'', PBool True),
              (KStr ''questions'', PList (paginate_questions req
                 (filter (\<lambda>q. ilike (''%'' @ py_format repr search @ ''%'') (qtext q))
                    (questions s)))),
              (KStr ''total_questions'', PInt (int (length (questions s))))]), s)"
    unfolding create_question_def body by (simp add: search)
  then have first: "handle repr tape s POST_questions req =
           Some (Response 200 (PDict
             [(KStr ''success'', PBool True),
              (KStr ''questions'', PList (paginate_questions req
                 (filter (\<lambda>q. ilike (''%'' @ py_format repr search @ ''%'') (qtext q))
                    (questions s)))),
              (KStr ''total_questions'', PInt (int (length (questions s))))]), s)"
    by simp
  have second: "pattern_free (py_format repr search) \<longrightarrow>
              filter (\<lambda>q. ilike (''%'' @ py_format repr search @ ''%'') (qtext q)) (questions s)
              = filter (\<lambda>q. ci_substring (py_format repr search) (qtext q)) (questions s)"
  proof
    assume "pattern_free (py_format repr search)"
    then show "filter (\<lambda>q. ilike (''%'' @ py_format repr search @ ''%'') (qtext q)) (questions s)
              = filter (\<lambda>q. ci_substring (py_format repr search) (qtext q)) (questions s)"
      by (simp only: ilike_substring)
  qed
  from first second show ?thesis by (rule conjI)
qed

lemma paginate_sample:
  "paginate_questions \<lparr>page_arg = None, json_body = b\<rparr> (questions sample_store)
     = map format (questions sample_store)"
  by (simp add: paginate_questions_def get_page_def QUESTIONS_PER_PAGE_def py_slice_def
        slice_index_def sample_store_def)

lemma lower_sample: "map lower ''Question'' = ''question''" "map lower ''EST'' = ''est''"
   "map lower ''_'' = ''_''" "map lower ''%_%'' = ''%_%''"
  by code_simp+

text \<open>
  C9 as stated fails: the search term \<^verbatim>\<open>_\<close> is a substring of no question text of the
  sample store, yet the handler returns all three questions, since \<^verbatim>\<open>_\<close> stands for
  any one character in the pattern.
\<close>

theorem create_question_search_wildcard_counterexample:
  "truthy (PStr ''_'')
   \<and> filter (\<lambda>q. ci_substring ''_'' (qtext q)) (questions sample_store) = []
   \<and> handle (\<lambda>v. []) [] sample_store POST_questions (search_request ''_'') =
       Some (Response 200 (PDict
         [(KStr ''success'', PBool True),
          (KStr ''questions'', PList (map format (questions sample_store))),
          (KStr ''total_questions'', PInt 3)]), sample_store)"
proof -
  have like: "ilike ''%_%'' ''Question''"
    unfolding ilike_def lower_sample by simp
  have nosub: "\<not> ci_substring ''_'' ''Question''"
    unfolding ci_substring_def lower_sample by (simp add: sublist_Cons_right)
  have texts: "map qtext (questions sample_store) = [''Question'', ''Question'', ''Question'']"
    by (simp add: sample_store_def sample_question_def)
  have sel: "filter (\<lambda>q. ilike ''%_%'' (qtext q)) (questions sample_store) = questions sample_store"
    using like by (simp add: sample_store_def sample_question_def)
  have none: "filter (\<lambda>q. ci_substring ''_'' (qtext q)) (questions sample_store) = []"
    using nosub by (simp add: sample_store_def sample_question_def)
  have len: "length (questions sample_store) = 3" by (simp add: sample_store_def)
  have "create_question (\<lambda>v. []) sample_store (search_request ''_'') =
       (Return (PDict
         [(KStr ''success'', PBool True),
          (KStr ''questions'', PList (map format (questions sample_store))),
          (KStr ''total_questions'', PInt 3)]), sample_store)"
    using sel
    by (simp add: create_question_def create_question_try_def search_request_def paginate_sample len)
  with none show ?thesis by simp
qed

theorem create_question_search_witness:
  "py_get (json_body (search_request ''EST'')) ''search'' = Inr (PStr ''EST'')
   \<and> truthy (PStr ''EST'')
   \<and> pattern_free ''EST''
   \<and> handle (\<lambda>v. []) [] sample_store POST_questions (search_request ''EST'') =
       Some (Response 200 (PDict
         [(KStr ''success'', PBool True),
          (KStr ''questions'', PList (map format (questions sample_store))),
          (KStr ''total_questions'', PInt 3)]), sample_store)
   \<and> filter (\<lambda>q. ci_substring ''EST'' (qtext q)) (questions sample_store) = questions sample_store"
proof -
  have get: "py_get (json_body (search_request ''EST'')) ''search'' = Inr (PStr ''EST'')"
    by (simp add: search_request_def)
  have free: "pattern_free ''EST''" by (simp add: pattern_free_def)
  have sub: "ci_substring ''EST'' ''Question''"
    unfolding ci_substring_def lower_sample by (simp add: sublist_Cons_right)
  have all: "filter (\<lambda>q. ci_substring ''EST'' (qtext q)) (questions sample_store) = questions sample_store"
    using sub by (simp add: sample_store_def sample_question_def)
  have page: "paginate_questions (search_request ''EST'') (questions sample_store)
     = map format (questions sample_store)"
    by (simp add: search_request_def paginate_sample)
  have len: "length (questions sample_store) = 3" by (simp add: sample_store_def)
  from create_question_search [OF get, of "\<lambda>v. []" "[]" sample_store] free
  show ?thesis by (simp add: get all page len)
qed

section \<open>Properties of the quiz\<close>

text \<open>
  When \<^verbatim>\<open>previous_questions\<close> is a list of question ids, the test of \<^verbatim>\<open>if_used\<close>
  compares the formatted question, a dictionary, with integers and is never true: the
  loop is not entered and the first question drawn is returned.
\<close>

lemma if_used_ids:
  assumes "\<forall>v \<in> set prev. \<exists>n. v = PInt n"
  shows "if_used (PList prev) (format q) = Inr False"
proof -
  have "\<not> py_eq v (format q)" if "v \<in> set prev" for v
  proof -
    from assms that obtain n where "v = PInt n" by blast
    then show ?thesis by (simp add: format_def)
  qed
  then show ?thesis by (simp add: if_used_def list_ex_iff)
qed

lemma quiz_loop_unused:
  assumes "if_used prev new_question = Inr False"
  shows "quiz_loop quiz prev new_question tape =
           Some (Return (PDict [(KStr ''success'', PBool True), (KStr ''question'', new_question)]))"
  using assms by (cases tape) simp_all

lemma play_quiz_ids:
  assumes "\<forall>v \<in> set prev. \<exists>n. v = PInt n" and "questions s \<noteq> []"
  shows "play_quiz repr s (quiz_request (PList prev) (PInt 0)) (r # tape) =
           Some (Return (PDict
             [(KStr ''success'', PBool True),
              (KStr ''question'', format (questions s ! (r mod length (questions s))))]))"
  using assms(2)
  by (simp add: play_quiz_def quiz_request_def random_choice_def
      quiz_loop_unused [OF if_used_ids [OF assms(1)]])

text \<open>
  C1 at a concrete request: the sample store holds three questions, the client has
  already seen question 1 and asks for any category, and the first draw picks question 1.
  The handler returns question 1 again, although two questions are still unseen.
\<close>

theorem play_quiz_repeats_previous_question:
  "qid (sample_question 1 1) = 1
   \<and> length (questions sample_store) = 3
   \<and> handle (\<lambda>v. []) [0] sample_store POST_quizzes (quiz_request (PList [PInt 1]) (PInt 0))
       = Some (Response 200 (PDict
                [(KStr ''success'', PBool True),
                 (KStr ''question'', format (sample_question 1 1))]), sample_store)"
proof -
  have "play_quiz (\<lambda>v. []) sample_store (quiz_request (PList [PInt 1]) (PInt 0)) [0]
      = Some (Return (PDict
                [(KStr ''success'', PBool True),
                 (KStr ''question'', format (sample_question 1 1))]))"
    by (simp add: play_quiz_def quiz_request_def random_choice_def sample_store_def if_used_def
        format_def)
  then show ?thesis by (simp add: sample_store_def sample_question_def)
qed

text \<open>
  C3 at a concrete request: the client has seen the questions 1, 2 and 3, which are all
  the questions of the sample store. The handler returns a success response that carries
  a \<^verbatim>\<open>question\<close> field, question 1 again.
\<close>

theorem play_quiz_exhausted_returns_question:
  "length [PInt 1, PInt 2, PInt 3] = length (questions sample_store)
   \<and> map qid (questions sample_store) = [1, 2, 3]
   \<and> handle (\<lambda>v. []) [0] sample_store POST_quizzes
        (quiz_request (PList [PInt 1, PInt 2, PInt 3]) (PInt 0))
       = Some (Response 200 (PDict
                [(KStr ''success'', PBool True),
                 (KStr ''question'', format (sample_question 1 1))]), sample_store)"
proof -
  have "play_quiz (\<lambda>v. []) sample_store (quiz_request (PList [PInt 1, PInt 2, PInt 3]) (PInt 0)) [0]
      = Some (Return (PDict
                [(KStr ''success'', PBool True),
                 (KStr ''question'', format (sample_question 1 1))]))"
    by (simp add: play_quiz_def quiz_request_def random_choice_def sample_store_def if_used_def
        format_def)
  then show ?thesis by (simp add: sample_store_def sample_question_def)
qed

section \<open>Status codes\<close>

text \<open>
  C4 as stated fails: POST /quizzes on a store without questions draws from an empty
  pool; \<^verbatim>\<open>random.choice\<close> raises IndexError outside any \<^verbatim>\<open>try\<close> block, and the
  framework answers with status 500.
\<close>

theorem play_quiz_empty_pool_counterexample:
  "handle (\<lambda>v. []) [0] empty_store POST_quizzes (quiz_request (PList []) (PInt 0))
     = Some (Uncaught IndexError, empty_store)
   \<and> status (Uncaught IndexError) = 500"
  by (simp add: play_quiz_def quiz_request_def random_choice_def empty_store_def)


lemma handled_try_except:
  assumes "code = 400 \<or> code = 404 \<or> code = 422"
  shows "handled (respond (try_except r code))"
  using assms by (cases r) (auto simp: handled_def)

lemma handled_retrieve_categories: "handled (respond (retrieve_categories s))"
  by (simp add: retrieve_categories_def handled_def Let_def)

lemma handled_retrieve_questions: "handled (respond (retrieve_questions s req))"
  by (simp add: retrieve_questions_def handled_def Let_def)

lemma handled_delete_question: "handled (respond (fst (delete_question s req question_id)))"
  by (simp add: delete_question_def handled_try_except split: prod.splits)

lemma handled_create_question:
  "handled (respond (fst (create_question repr s req)))
   \<or> escapes (respond (fst (create_question repr s req)))"
  by (simp add: create_question_def handled_try_except escapes_def Let_def
      split: prod.splits sum.splits)

lemma handled_search_questions:
  "handled (respond (search_questions repr s req)) \<or> escapes (respond (search_questions repr s req))"
  by (simp add: search_questions_def handled_try_except escapes_def Let_def split: sum.splits)

lemma handled_retrieve_questions_by_category:
  "handled (respond (retrieve_questions_by_category repr s category_id))"
  by (simp add: retrieve_questions_by_category_def handled_try_except)

lemma quiz_loop_outcome:
  assumes "quiz_loop quiz prev new_question tape = Some r"
  shows "(\<exists>body. r = Return body) \<or> (\<exists>e. r = Raise e)"
  using assms
proof (induction tape arbitrary: new_question)
  case Nil
  then show ?case by (auto split: sum.splits if_splits)
next
  case (Cons n tape)
  then show ?case by (auto split: sum.splits if_splits)
qed

lemma play_quiz_outcome:
  assumes "play_quiz repr s req tape = Some r"
  shows "(\<exists>body. r = Return body) \<or> r = Abort 422 \<or> (\<exists>e. r = Raise e)"
  using assms
  by (auto simp: play_quiz_def Let_def split: sum.splits if_splits list.splits
      dest: quiz_loop_outcome)

lemma handled_play_quiz:
  assumes "play_quiz repr s req tape = Some r"
  shows "handled (respond r) \<or> escapes (respond r)"
  using play_quiz_outcome [OF assms] by (auto simp: handled_def escapes_def)

lemma handle_outcome:
  assumes "handle repr tape s ep req = Some (r, s')"
  shows "(handled r \<or> escapes r) \<and>
        (\<not> handled r \<longrightarrow> ep = POST_questions \<or> ep = POST_questions_search \<or> ep = POST_quizzes)"
proof (cases ep)
  case GET_categories
  with assms show ?thesis using handled_retrieve_categories [of s] by auto
next
  case GET_questions
  with assms show ?thesis using handled_retrieve_questions [of s req] by auto
next
  case (DELETE_question question_id)
  with assms show ?thesis using handled_delete_question [of s req question_id]
    by (auto split: prod.splits)
next
  case POST_questions
  with assms show ?thesis using handled_create_question [of repr s req]
    by (auto split: prod.splits)
next
  case POST_questions_search
  with assms show ?thesis using handled_search_questions [of repr s req] by auto
next
  case (GET_category_questions category_id)
  with assms show ?thesis using handled_retrieve_questions_by_category [of repr s category_id]
    by auto
next
  case POST_quizzes
  with assms show ?thesis using handled_play_quiz [of repr s req tape]
    by (auto split: option.splits)
qed

lemma handle_returns:
  assumes "ep \<noteq> POST_quizzes"
  shows "\<exists>r s'. handle repr tape s ep req = Some (r, s')"
  using assms by (cases ep) (auto split: prod.splits)

text \<open>
  C4, as the code has it. Every endpoint but POST /quizzes always answers, and POST
  /quizzes answers unless its loop does not end. Every answer is either a response of the
  handlers, that is a success with status 200 or one of the three fixed error responses
  with status 400, 404 or 422 and the body of the error mapper, or the answer of the
  framework to an exception that escaped the view function. Only the three POST
  handlers let an exception escape.
\<close>

theorem handle_statuses:
  "(ep \<noteq> POST_quizzes \<longrightarrow> (\<exists>r s'. handle repr tape s ep req = Some (r, s')))
   \<and> (\<forall>r s'. handle repr tape s ep req = Some (r, s') \<longrightarrow>
        (handled r \<or> escapes r)
        \<and> (escapes r \<longrightarrow>
             ep = POST_questions \<or> ep = POST_questions_search \<or> ep = POST_quizzes)
        \<and> (handled r \<longrightarrow>
             status r = 200 \<or> status r = 400 \<or> status r = 404 \<or> status r = 422))"
proof -
  have st: "status r = 200 \<or> status r = 400 \<or> status r = 404 \<or> status r = 422"
    if "handled r" for r
    using that by (auto simp: handled_def status_handlers)
  have ne: "\<not> escapes r" if "handled r" for r
    using that
    by (auto simp: handled_def escapes_def not_found_def unprocessable_def bad_request_def)
  show ?thesis using handle_returns [of ep repr tape s req] handle_outcome [of repr tape s ep req] st ne
    by blast
qed

theorem handle_statuses_witness:
  "handle (\<lambda>v. []) [] empty_store GET_categories \<lparr>page_arg = None, json_body = PNone\<rparr>
     = Some (not_found, empty_store)
   \<and> handled not_found \<and> status not_found = 404
   \<and> handle (\<lambda>v. []) [] empty_store POST_questions \<lparr>page_arg = None, json_body = PList []\<rparr>
     = Some (Uncaught AttributeError, empty_store)
   \<and> escapes (Uncaught AttributeError)"
proof -
  have a: "handle (\<lambda>v. []) [] empty_store GET_categories \<lparr>page_arg = None, json_body = PNone\<rparr>
     = Some (not_found, empty_store)"
    by (simp add: retrieve_categories_def empty_store_def)
  have b: "handle (\<lambda>v. []) [] empty_store POST_questions \<lparr>page_arg = None, json_body = PList []\<rparr>
     = Some (Uncaught AttributeError, empty_store)"
    by (simp add: create_question_def)
  have c: "handled not_found" by (simp add: handled_def)
  have d: "escapes (Uncaught AttributeError)" by (simp add: escapes_def)
  have e: "status not_found = 404" by (simp add: not_found_def)
  from a handle_statuses [of GET_categories "\<lambda>v. []" "[]" empty_store
        "\<lparr>page_arg = None, json_body = PNone\<rparr>"]
  have "handled not_found \<or> escapes not_found" by blast
  moreover
  from b handle_statuses [of POST_questions "\<lambda>v. []" "[]" empty_store
        "\<lparr>page_arg = None, json_body = PList []\<rparr>"]
  have "handled (Uncaught AttributeError) \<or> escapes (Uncaught AttributeError)" by blast
  ultimately show ?thesis using a b c d e by blast
qed

end
